theory Spec2Isabelle
  imports Main
begin

section \<open>SimpleRequest.h: the request abstraction\<close>

text \<open>
  \<^verbatim>\<open>SimpleRequest<Derived, Caching, Output, Inputs...>\<close> is a CRTP base class. A request
  object holds one field, \<^verbatim>\<open>std::tuple<Inputs...> m_storage\<close>. The heterogeneous tuple is
  modelled as a list over one type \<open>'i\<close> of input values; the arity \<^verbatim>\<open>sizeof...(Inputs)\<close>
  is the length of that list.
\<close>

datatype CacheKind = Uncached | Cached | SeparatelyCached

record 'i SimpleRequest =
  m_storage :: "'i list"

text \<open>
  Errors raised by the compiler while a member of the class template is instantiated.
  They are values of the model, on the left of a sum, so that a build that fails and a
  call that returns are different results.
\<close>

datatype build_error =
    StaticAssertFailed string
  | NoMember string
  | NoViableFunction string

text \<open>
  \<^verbatim>\<open>TypeId<Derived>\<close> is declared in TypeId.h, which is not among the sources: its two
  members used here, \<^verbatim>\<open>value\<close> and \<^verbatim>\<open>getName()\<close>, are taken as given.
\<close>

record 't TypeId =
  TypeId_value :: 't
  TypeId_getName :: string

text \<open>
  The members the \<^verbatim>\<open>Derived\<close> class supplies. \<^verbatim>\<open>evaluate\<close> takes the evaluator by
  reference, so it returns the evaluator's new state beside its \<^verbatim>\<open>Expected<Output>\<close>
  (\<open>Inl\<close> is the error). The members of the two cycle-diagnostic variants are optional:
  \<open>None\<close> means that \<^verbatim>\<open>Derived\<close> does not declare the member.
\<close>

record ('i, 'o, 'e, 'ev, 'loc, 'dg, 'de) Derived =
  evaluate :: "'ev \<Rightarrow> 'i list \<Rightarrow> ('e + 'o) \<times> 'ev"
  own_diagnoseCycle :: "('i SimpleRequest \<Rightarrow> 'de \<Rightarrow> 'de) option"
  own_noteCycleStep :: "('i SimpleRequest \<Rightarrow> 'de \<Rightarrow> 'de) option"
  getCycleDiagnosticLoc :: "('i list \<Rightarrow> 'loc) option"
  cycleDiagnostic :: "'dg option"
  cycleStepDiagnostic :: "'dg option"

subsection \<open>Construction and storage\<close>

definition SimpleRequest_ctor :: "'i list \<Rightarrow> 'i SimpleRequest" where
  "SimpleRequest_ctor inputs = \<lparr>m_storage = inputs\<rparr>"

definition getStorage :: "'i SimpleRequest \<Rightarrow> 'i list" where
  "getStorage request = m_storage request"

definition isEverCached :: "CacheKind \<Rightarrow> bool" where
  "isEverCached Caching = (Caching \<noteq> Uncached)"

definition hasExternalCache :: "CacheKind \<Rightarrow> bool" where
  "hasExternalCache Caching = (Caching = SeparatelyCached)"

text \<open>
  \<^verbatim>\<open>std::get<Indices>(m_storage)...\<close> expands the index pack in order.
  \<^verbatim>\<open>index_sequence_for<Inputs...>\<close> is the pack \<open>0, ..., sizeof...(Inputs) - 1\<close>, the only
  pack the class passes, so every index is in range.
\<close>

definition index_sequence_for :: "'i list \<Rightarrow> nat list" where
  "index_sequence_for inputs = [0..<length inputs]"

definition get_all :: "nat list \<Rightarrow> 'i list \<Rightarrow> 'i list" where
  "get_all Indices storage = map (\<lambda>i. storage ! i) Indices"

subsection \<open>Equality and hashing\<close>

text \<open>
  \<^verbatim>\<open>operator==\<close> of \<^verbatim>\<open>std::tuple\<close> compares the elements in order with the elements'
  own \<^verbatim>\<open>operator==\<close>, here \<open>eq\<close>, and stops at the first difference.
\<close>

fun tuple_eq :: "('i \<Rightarrow> 'i \<Rightarrow> bool) \<Rightarrow> 'i list \<Rightarrow> 'i list \<Rightarrow> bool" where
  "tuple_eq eq [] [] = True"
| "tuple_eq eq (x # xs) (y # ys) = (if eq x y then tuple_eq eq xs ys else False)"
| "tuple_eq eq _ _ = False"

definition operator_eq ::
  "('i \<Rightarrow> 'i \<Rightarrow> bool) \<Rightarrow> 'i SimpleRequest \<Rightarrow> 'i SimpleRequest \<Rightarrow> bool" where
  "operator_eq eq lhs rhs = tuple_eq eq (m_storage lhs) (m_storage rhs)"

definition operator_ne ::
  "('i \<Rightarrow> 'i \<Rightarrow> bool) \<Rightarrow> 'i SimpleRequest \<Rightarrow> 'i SimpleRequest \<Rightarrow> bool" where
  "operator_ne eq lhs rhs = (\<not> operator_eq eq lhs rhs)"

text \<open>
  \<^verbatim>\<open>hash_combine\<close> comes from Hashing.h, which is not among the sources; it is the
  parameter \<open>hash_combine\<close>, a function of its two arguments.
\<close>

definition hash_value ::
  "('t \<Rightarrow> 'i list \<Rightarrow> 'h) \<Rightarrow> 't TypeId \<Rightarrow> 'i SimpleRequest \<Rightarrow> 'h" where
  "hash_value hash_combine tid request = hash_combine (TypeId_value tid) (m_storage request)"

subsection \<open>Evaluation\<close>

definition callDerived ::
  "('i, 'o, 'e, 'ev, 'loc, 'dg, 'de) Derived \<Rightarrow> 'i SimpleRequest \<Rightarrow> 'ev \<Rightarrow> nat list
     \<Rightarrow> build_error + (('e + 'o) \<times> 'ev)" where
  "callDerived d request evaluator Indices =
     (if length Indices > 0
      then Inr (evaluate d evaluator (get_all Indices (m_storage request)))
      else Inl (StaticAssertFailed ''Subclass must define evaluate()''))"

definition evaluateRequest ::
  "('i, 'o, 'e, 'ev, 'loc, 'dg, 'de) Derived \<Rightarrow> 'i SimpleRequest \<Rightarrow> 'ev
     \<Rightarrow> build_error + (('e + 'o) \<times> 'ev)" where
  "evaluateRequest d request evaluator =
     callDerived d request evaluator (index_sequence_for (m_storage request))"

subsection \<open>Cycle diagnostics\<close>

text \<open>
  \<^verbatim>\<open>DiagnosticEngine::diagnose\<close> is declared in DiagnosticEngine.h, which is not among the
  sources. It is the parameter \<open>diagnose\<close>: given a location, a diagnostic and the
  arguments, it takes the engine from one state to the next.

  The private \<^verbatim>\<open>diagnoseImpl\<close> names \<^verbatim>\<open>Derived::getCycleDiagnosticLoc\<close>; the public
  \<^verbatim>\<open>diagnoseCycle\<close> and \<^verbatim>\<open>noteCycleStep\<close> of the base class name
  \<^verbatim>\<open>Derived::cycleDiagnostic\<close> and \<^verbatim>\<open>Derived::cycleStepDiagnostic\<close>. Instantiating one of
  them for a \<^verbatim>\<open>Derived\<close> without the member it names is a compile error.
\<close>

definition diagnoseImpl ::
  "('loc \<Rightarrow> 'dg \<Rightarrow> 'i list \<Rightarrow> 'de \<Rightarrow> 'de) \<Rightarrow> ('i, 'o, 'e, 'ev, 'loc, 'dg, 'de) Derived
     \<Rightarrow> 'i SimpleRequest \<Rightarrow> 'de \<Rightarrow> 'dg \<Rightarrow> nat list \<Rightarrow> build_error + 'de" where
  "diagnoseImpl diagnose d request diags diag Indices =
     (case getCycleDiagnosticLoc d of
        None \<Rightarrow> Inl (NoMember ''getCycleDiagnosticLoc'')
      | Some loc \<Rightarrow>
          Inr (diagnose (loc (get_all Indices (m_storage request))) diag
                 (get_all Indices (m_storage request)) diags))"

definition diagnoseCycle ::
  "('loc \<Rightarrow> 'dg \<Rightarrow> 'i list \<Rightarrow> 'de \<Rightarrow> 'de) \<Rightarrow> ('i, 'o, 'e, 'ev, 'loc, 'dg, 'de) Derived
     \<Rightarrow> 'i SimpleRequest \<Rightarrow> 'de \<Rightarrow> build_error + 'de" where
  "diagnoseCycle diagnose d request diags =
     (case cycleDiagnostic d of
        None \<Rightarrow> Inl (NoMember ''cycleDiagnostic'')
      | Some diag \<Rightarrow>
          diagnoseImpl diagnose d request diags diag (index_sequence_for (m_storage request)))"

definition noteCycleStep ::
  "('loc \<Rightarrow> 'dg \<Rightarrow> 'i list \<Rightarrow> 'de \<Rightarrow> 'de) \<Rightarrow> ('i, 'o, 'e, 'ev, 'loc, 'dg, 'de) Derived
     \<Rightarrow> 'i SimpleRequest \<Rightarrow> 'de \<Rightarrow> build_error + 'de" where
  "noteCycleStep diagnose d request diags =
     (case cycleStepDiagnostic d of
        None \<Rightarrow> Inl (NoMember ''cycleStepDiagnostic'')
      | Some diag \<Rightarrow>
          diagnoseImpl diagnose d request diags diag (index_sequence_for (m_storage request)))"

text \<open>
  A call \<^verbatim>\<open>request.diagnoseCycle(diags)\<close> on an object of type \<^verbatim>\<open>Derived\<close>: a member that
  \<^verbatim>\<open>Derived\<close> declares hides the base class's member of that name, and the base class's
  member is then never instantiated. Otherwise the call reaches the base class's member.
\<close>

definition Derived_diagnoseCycle ::
  "('loc \<Rightarrow> 'dg \<Rightarrow> 'i list \<Rightarrow> 'de \<Rightarrow> 'de) \<Rightarrow> ('i, 'o, 'e, 'ev, 'loc, 'dg, 'de) Derived
     \<Rightarrow> 'i SimpleRequest \<Rightarrow> 'de \<Rightarrow> build_error + 'de" where
  "Derived_diagnoseCycle diagnose d request diags =
     (case own_diagnoseCycle d of
        Some f \<Rightarrow> Inr (f request diags)
      | None \<Rightarrow> diagnoseCycle diagnose d request diags)"

definition Derived_noteCycleStep ::
  "('loc \<Rightarrow> 'dg \<Rightarrow> 'i list \<Rightarrow> 'de \<Rightarrow> 'de) \<Rightarrow> ('i, 'o, 'e, 'ev, 'loc, 'dg, 'de) Derived
     \<Rightarrow> 'i SimpleRequest \<Rightarrow> 'de \<Rightarrow> build_error + 'de" where
  "Derived_noteCycleStep diagnose d request diags =
     (case own_noteCycleStep d of
        Some f \<Rightarrow> Inr (f request diags)
      | None \<Rightarrow> noteCycleStep diagnose d request diags)"

definition build_fails :: "build_error + 'a \<Rightarrow> bool" where
  "build_fails r = (case r of Inl _ \<Rightarrow> True | Inr _ \<Rightarrow> False)"

text \<open>The two variants of the class comment: which members a kind declares.\<close>

definition has_direct :: "('i, 'o, 'e, 'ev, 'loc, 'dg, 'de) Derived \<Rightarrow> bool" where
  "has_direct d = (own_diagnoseCycle d \<noteq> None \<and> own_noteCycleStep d \<noteq> None)"

definition has_templated :: "('i, 'o, 'e, 'ev, 'loc, 'dg, 'de) Derived \<Rightarrow> bool" where
  "has_templated d =
     (getCycleDiagnosticLoc d \<noteq> None \<and> cycleDiagnostic d \<noteq> None \<and> cycleStepDiagnostic d \<noteq> None)"

definition has_no_cycle_member :: "('i, 'o, 'e, 'ev, 'loc, 'dg, 'de) Derived \<Rightarrow> bool" where
  "has_no_cycle_member d =
     (own_diagnoseCycle d = None \<and> own_noteCycleStep d = None \<and>
      getCycleDiagnosticLoc d = None \<and> cycleDiagnostic d = None \<and> cycleStepDiagnostic d = None)"

text \<open>
  A diagnostic engine that only records the calls of \<^verbatim>\<open>diagnose\<close> it receives, in order:
  one entry per emitted diagnostic.
\<close>

definition record_diagnose ::
  "'loc \<Rightarrow> 'dg \<Rightarrow> 'i list \<Rightarrow> ('loc \<times> 'dg \<times> 'i list) list \<Rightarrow> ('loc \<times> 'dg \<times> 'i list) list" where
  "record_diagnose loc diag args diags = diags @ [(loc, diag, args)]"

subsection \<open>Display\<close>

text \<open>
  The output stream is the text written to it so far; \<^verbatim>\<open>out << s\<close> appends. The overload
  \<^verbatim>\<open>simple_display(out, tuple)\<close> lives in SimpleDisplay.h, which is not among the sources:
  it is the parameter \<open>simple_display_tuple\<close>, from the stream and the tuple to the stream
  after the call.
\<close>

definition out_shl :: "string \<Rightarrow> string \<Rightarrow> string" where
  "out_shl out s = out @ s"

definition simple_display ::
  "(string \<Rightarrow> 'i list \<Rightarrow> string) \<Rightarrow> 't TypeId \<Rightarrow> string \<Rightarrow> 'i SimpleRequest \<Rightarrow> string" where
  "simple_display simple_display_tuple tid out request =
     simple_display_tuple (out_shl out (TypeId_getName tid)) (m_storage request)"

text \<open>A tuple display that writes the elements between parentheses, separated by commas.\<close>

fun display_elements :: "('i \<Rightarrow> string) \<Rightarrow> 'i list \<Rightarrow> string" where
  "display_elements sh [] = []"
| "display_elements sh [x] = sh x"
| "display_elements sh (x # y # ys) = sh x @ '', '' @ display_elements sh (y # ys)"

definition display_paren :: "('i \<Rightarrow> string) \<Rightarrow> 'i list \<Rightarrow> string" where
  "display_paren sh xs = ''('' @ display_elements sh xs @ '')''"

definition display_paren_tuple :: "('i \<Rightarrow> string) \<Rightarrow> string \<Rightarrow> 'i list \<Rightarrow> string" where
  "display_paren_tuple sh out xs = out_shl out (display_paren sh xs)"

subsection \<open>The public operations as steps on a state\<close>

text \<open>
  Every public operation receives the request as \<^verbatim>\<open>const SimpleRequest &\<close>,
  \<^verbatim>\<open>const Derived &\<close> or a \<^verbatim>\<open>const\<close> \<^verbatim>\<open>this\<close>; the objects it receives by non-const
  reference are the evaluator, the diagnostic engine and the output stream. The state holds
  these four objects, and a step is one call. The value a call returns is not part of the
  state. A call that does not compile leaves no program to run: the state stays.
\<close>

record ('i, 'ev, 'de) world =
  w_request :: "'i SimpleRequest"
  w_evaluator :: 'ev
  w_diags :: 'de
  w_out :: string

datatype 'i operation =
    OpEq "'i SimpleRequest"
  | OpNe "'i SimpleRequest"
  | OpHash
  | OpDisplay
  | OpEvaluate
  | OpDiagnoseCycle
  | OpNoteCycleStep

fun perform ::
  "(string \<Rightarrow> 'i list \<Rightarrow> string) \<Rightarrow> 't TypeId \<Rightarrow> ('loc \<Rightarrow> 'dg \<Rightarrow> 'i list \<Rightarrow> 'de \<Rightarrow> 'de)
     \<Rightarrow> ('i, 'o, 'e, 'ev, 'loc, 'dg, 'de) Derived \<Rightarrow> 'i operation
     \<Rightarrow> ('i, 'ev, 'de) world \<Rightarrow> ('i, 'ev, 'de) world" where
  "perform sdt tid diagnose d (OpEq other) w = w"
| "perform sdt tid diagnose d (OpNe other) w = w"
| "perform sdt tid diagnose d OpHash w = w"
| "perform sdt tid diagnose d OpDisplay w =
     w\<lparr>w_out := simple_display sdt tid (w_out w) (w_request w)\<rparr>"
| "perform sdt tid diagnose d OpEvaluate w =
     (case evaluateRequest d (w_request w) (w_evaluator w) of
        Inl err \<Rightarrow> w
      | Inr (result, evaluator') \<Rightarrow> w\<lparr>w_evaluator := evaluator'\<rparr>)"
| "perform sdt tid diagnose d OpDiagnoseCycle w =
     (case Derived_diagnoseCycle diagnose d (w_request w) (w_diags w) of
        Inl err \<Rightarrow> w
      | Inr diags' \<Rightarrow> w\<lparr>w_diags := diags'\<rparr>)"
| "perform sdt tid diagnose d OpNoteCycleStep w =
     (case Derived_noteCycleStep diagnose d (w_request w) (w_diags w) of
        Inl err \<Rightarrow> w
      | Inr diags' \<Rightarrow> w\<lparr>w_diags := diags'\<rparr>)"

fun perform_all ::
  "(string \<Rightarrow> 'i list \<Rightarrow> string) \<Rightarrow> 't TypeId \<Rightarrow> ('loc \<Rightarrow> 'dg \<Rightarrow> 'i list \<Rightarrow> 'de \<Rightarrow> 'de)
     \<Rightarrow> ('i, 'o, 'e, 'ev, 'loc, 'dg, 'de) Derived \<Rightarrow> 'i operation list
     \<Rightarrow> ('i, 'ev, 'de) world \<Rightarrow> ('i, 'ev, 'de) world" where
  "perform_all sdt tid diagnose d [] w = w"
| "perform_all sdt tid diagnose d (x # xs) w =
     perform_all sdt tid diagnose d xs (perform sdt tid diagnose d x w)"

text \<open>
  \<^verbatim>\<open>operator==\<close> is a friend of one instantiation \<^verbatim>\<open>SimpleRequest<Derived, ...>\<close> and takes
  two \<^verbatim>\<open>const SimpleRequest &\<close> of that instantiation. An operand is a request with its
  static type, the kind \<open>'k\<close>. For operands of two kinds no candidate is viable and the
  comparison does not compile.
\<close>

definition operator_eq_call ::
  "('i \<Rightarrow> 'i \<Rightarrow> bool) \<Rightarrow> 'k \<times> 'i SimpleRequest \<Rightarrow> 'k \<times> 'i SimpleRequest \<Rightarrow> build_error + bool" where
  "operator_eq_call eq lhs rhs =
     (if fst lhs = fst rhs then Inr (operator_eq eq (snd lhs) (snd rhs))
      else Inl (NoViableFunction ''operator==''))"

section \<open>CTypeIdZoneDefs.h: the declaration list of the C++ zone\<close>

text \<open>
  The list of the file, in its order: the \<^verbatim>\<open>POLAR_TYPEID_NAMED\<close> entries and then the
  two \<^verbatim>\<open>POLAR_TYPEID_TEMPLATE1_NAMED\<close> entries, each as the C++ type (or template) and
  the name it is given.
\<close>

definition CTypeIdZone_entries :: "(string \<times> string) list" where
  "CTypeIdZone_entries =
    [(''unsigned char'', ''UnsignedChar''),
     (''signed char'', ''SignedChar''),
     (''char'', ''Char''),
     (''short'', ''Short''),
     (''unsigned short'', ''UnsignedShort''),
     (''int'', ''Int''),
     (''unsigned int'', ''UnsignedInt''),
     (''long'', ''Long''),
     (''unsigned long'', ''UnsignedLong''),
     (''long long'', ''LongLong''),
     (''unsigned long long'', ''UnsignedLongLong''),
     (''float'', ''Float''),
     (''double'', ''Double''),
     (''bool'', ''Bool''),
     (''decltype(nullptr)'', ''NullPtr''),
     (''void'', ''Void''),
     (''std::string'', ''String''),
     (''std::vector'', ''Vector''),
     (''polar::basic::TinyPtrVector'', ''TinyPtrVector'')]"

text \<open>
  Modelled from the spec: the identity-assignment machinery (TypeId.h and the header that
  expands a zone's list) is not among the sources. The spec describes a zone as an ordered
  list of (type, display name) pairs with a zone id and a zone-specific base offset.
\<close>

record 'c zone =
  zoneId :: nat
  baseOffset :: nat
  entries :: "('c \<times> string) list"

text \<open>
  Modelled from the spec: the position of a declared type in the list; \<open>None\<close> for a type
  that the list does not declare (the spec makes its use a build-time error).
\<close>

fun position :: "'c \<Rightarrow> 'c list \<Rightarrow> nat option" where
  "position T [] = None"
| "position T (U # Us) = (if T = U then Some 0 else map_option Suc (position T Us))"

text \<open>
  Modelled from the spec: TypeId.h is missing. ``Local ids are assigned by list position,
  starting at a zone-specific base offset.''
\<close>

definition localIdOf :: "'c zone \<Rightarrow> 'c \<Rightarrow> nat option" where
  "localIdOf z T = map_option (\<lambda>i. baseOffset z + i) (position T (map fst (entries z)))"

text \<open>
  Modelled from the spec: TypeId.h is missing. The identity of a type declared in a zone is
  the pair of the zone's id and the type's local id.
\<close>

definition identityOf_zone :: "'c zone \<Rightarrow> 'c \<Rightarrow> (nat \<times> nat) option" where
  "identityOf_zone z T = map_option (\<lambda>l. (zoneId z, l)) (localIdOf z T)"

text \<open>
  Modelled from the spec: TypeId.h is missing. \<^verbatim>\<open>identityOf<T>()\<close> over a registry of
  zones is the identity that the zone declaring \<open>T\<close> gives it.
\<close>

fun identityOf :: "'c zone list \<Rightarrow> 'c \<Rightarrow> (nat \<times> nat) option" where
  "identityOf [] T = None"
| "identityOf (z # zs) T =
     (case identityOf_zone z T of Some i \<Rightarrow> Some i | None \<Rightarrow> identityOf zs T)"

text \<open>
  Modelled from the spec: the three ways a later version can change a zone's list:
  appending entries at the end, inserting one entry before position \<open>i\<close>, and exchanging
  the entries at positions \<open>i\<close> and \<open>j\<close>.
\<close>

definition append_entries :: "('c \<times> string) list \<Rightarrow> 'c zone \<Rightarrow> 'c zone" where
  "append_entries new z = z\<lparr>entries := entries z @ new\<rparr>"

definition insert_entry :: "nat \<Rightarrow> 'c \<times> string \<Rightarrow> 'c zone \<Rightarrow> 'c zone" where
  "insert_entry i e z = z\<lparr>entries := take i (entries z) @ e # drop i (entries z)\<rparr>"

definition swap_entries :: "nat \<Rightarrow> nat \<Rightarrow> 'c zone \<Rightarrow> 'c zone" where
  "swap_entries i j z = z\<lparr>entries := (entries z)[i := entries z ! j, j := entries z ! i]\<rparr>"

definition CTypeIdZone :: "nat \<Rightarrow> nat \<Rightarrow> string zone" where
  "CTypeIdZone zid base = \<lparr>zoneId = zid, baseOffset = base, entries = CTypeIdZone_entries\<rparr>"

section \<open>Example kinds\<close>

text \<open>
  Four request kinds over integer inputs, used to run the definitions: one for each way of
  declaring the cycle-diagnostic members. The evaluator's state counts the calls of
  \<^verbatim>\<open>evaluate\<close>; a negative sum of the inputs is the evaluation's failure.
\<close>

type_synonym example_kind =
  "(int, int, string, nat, nat, string, (nat \<times> string \<times> int list) list) Derived"

definition sum_evaluate :: "nat \<Rightarrow> int list \<Rightarrow> (string + int) \<times> nat" where
  "sum_evaluate evaluator xs =
     (if sum_list xs < 0 then Inl ''negative sum'' else Inr (sum_list xs), Suc evaluator)"

definition direct_cycle ::
  "int SimpleRequest \<Rightarrow> (nat \<times> string \<times> int list) list \<Rightarrow> (nat \<times> string \<times> int list) list" where
  "direct_cycle request diags = diags @ [(0, ''direct cycle'', [])]"

definition direct_step ::
  "int SimpleRequest \<Rightarrow> (nat \<times> string \<times> int list) list \<Rightarrow> (nat \<times> string \<times> int list) list" where
  "direct_step request diags = diags @ [(0, ''direct step'', [])]"

definition templated_kind :: example_kind where
  "templated_kind =
     \<lparr>evaluate = sum_evaluate,
      own_diagnoseCycle = None,
      own_noteCycleStep = None,
      getCycleDiagnosticLoc = Some (\<lambda>xs. nat (hd xs)),
      cycleDiagnostic = Some ''circular reference'',
      cycleStepDiagnostic = Some ''through reference here''\<rparr>"

definition direct_kind :: example_kind where
  "direct_kind =
     \<lparr>evaluate = sum_evaluate,
      own_diagnoseCycle = Some direct_cycle,
      own_noteCycleStep = Some direct_step,
      getCycleDiagnosticLoc = None,
      cycleDiagnostic = None,
      cycleStepDiagnostic = None\<rparr>"

definition both_kind :: example_kind where
  "both_kind =
     \<lparr>evaluate = sum_evaluate,
      own_diagnoseCycle = Some direct_cycle,
      own_noteCycleStep = Some direct_step,
      getCycleDiagnosticLoc = Some (\<lambda>xs. nat (hd xs)),
      cycleDiagnostic = Some ''circular reference'',
      cycleStepDiagnostic = Some ''through reference here''\<rparr>"

definition neither_kind :: example_kind where
  "neither_kind =
     \<lparr>evaluate = sum_evaluate,
      own_diagnoseCycle = None,
      own_noteCycleStep = None,
      getCycleDiagnosticLoc = None,
      cycleDiagnostic = None,
      cycleStepDiagnostic = None\<rparr>"

definition example_request :: "int SimpleRequest" where
  "example_request = SimpleRequest_ctor [7, 8]"

definition example_tid :: "int TypeId" where
  "example_tid = \<lparr>TypeId_value = 3, TypeId_getName = ''SumRequest''\<rparr>"

definition example_world :: "(int, nat, (nat \<times> string \<times> int list) list) world" where
  "example_world =
     \<lparr>w_request = example_request, w_evaluator = 0, w_diags = [], w_out = ''note: ''\<rparr>"

text \<open>A hash over integers that folds the elements into the kind's identity.\<close>

definition example_hash_combine :: "int \<Rightarrow> int list \<Rightarrow> int" where
  "example_hash_combine v xs = fold (\<lambda>x h. (31 * h + x) mod 4294967296) xs v"

definition show_digit :: "int \<Rightarrow> string" where
  "show_digit x = (if 0 \<le> x \<and> x < 10 then [''0123456789'' ! nat x] else ''?'')"

text \<open>
  A registry of two zones: the C++ zone above, as zone 0, and a zone 1 that declares two
  request kinds. Both zones start their local ids at 0.
\<close>

definition example_registry :: "string zone list" where
  "example_registry =
     [CTypeIdZone 0 0,
      \<lparr>zoneId = 1, baseOffset = 0,
       entries = [(''SumRequest'', ''SumRequest''), (''ProductRequest'', ''ProductRequest'')]\<rparr>]"

section \<open>Properties of the request abstraction\<close>

lemma tuple_eq_list_all2: "tuple_eq eq xs ys = list_all2 eq xs ys"
  by (induction eq xs ys rule: tuple_eq.induct) simp_all

lemma get_all_index_sequence_for: "get_all (index_sequence_for xs) xs = xs"
  by (simp add: get_all_def index_sequence_for_def map_nth)

lemma diagnoseImpl_index_sequence_for:
  "diagnoseImpl diagnose d request diags diag (index_sequence_for (m_storage request)) =
     (case getCycleDiagnosticLoc d of
        None \<Rightarrow> Inl (NoMember ''getCycleDiagnosticLoc'')
      | Some loc \<Rightarrow> Inr (diagnose (loc (m_storage request)) diag (m_storage request) diags))"
  by (simp add: diagnoseImpl_def get_all_index_sequence_for split: option.splits)

lemma perform_request: "w_request (perform sdt tid diagnose d x w) = w_request w"
  by (cases x) (simp_all split: sum.splits prod.splits)

lemma example_run:
  "perform_all (display_paren_tuple show_digit) example_tid record_diagnose templated_kind
       [OpEvaluate, OpDiagnoseCycle, OpNoteCycleStep, OpDisplay, OpHash, OpEq example_request]
       example_world =
     \<lparr>w_request = example_request, w_evaluator = 1,
      w_diags = [(7, ''circular reference'', [7, 8]), (7, ''through reference here'', [7, 8])],
      w_out = ''note: SumRequest(7, 8)''\<rparr>"
  by (simp add: example_world_def example_request_def SimpleRequest_ctor_def example_tid_def
      templated_kind_def sum_evaluate_def evaluateRequest_def callDerived_def
      index_sequence_for_def get_all_def Derived_diagnoseCycle_def Derived_noteCycleStep_def
      diagnoseCycle_def noteCycleStep_def diagnoseImpl_def record_diagnose_def
      simple_display_def out_shl_def display_paren_tuple_def display_paren_def show_digit_def)

subsection \<open>Positions and local ids\<close>

lemma position_None_iff: "position T xs = None \<longleftrightarrow> T \<notin> set xs"
  by (induction xs) auto

lemma position_SomeD: "position T xs = Some i \<Longrightarrow> i < length xs \<and> xs ! i = T"
  by (induction xs arbitrary: i) (auto split: if_splits)

lemma position_nth: "distinct xs \<Longrightarrow> i < length xs \<Longrightarrow> position (xs ! i) xs = Some i"
proof (induction xs arbitrary: i)
  case Nil
  then show ?case by simp
next
  case (Cons x xs)
  show ?case
  proof (cases i)
    case 0
    then show ?thesis by simp
  next
    case (Suc k)
    with Cons.prems have "k < length xs" and "xs ! k \<noteq> x" and "distinct xs"
      by auto
    with Cons.IH [of k] Suc show ?thesis
      by simp
  qed
qed

lemma position_append: "position T xs = Some i \<Longrightarrow> position T (xs @ ys) = Some i"
  by (induction xs arbitrary: i) (auto split: if_splits)

lemma position_inj: "position T xs = Some i \<Longrightarrow> position U xs = Some i \<Longrightarrow> T = U"
  by (metis position_SomeD)

lemma localIdOf_SomeD:
  "localIdOf z T = Some l \<Longrightarrow>
     \<exists>i. position T (map fst (entries z)) = Some i \<and> l = baseOffset z + i \<and> i < length (entries z)"
  using position_SomeD by (fastforce simp: localIdOf_def)

lemma localIdOf_nth:
  "distinct (map fst (entries z)) \<Longrightarrow> i < length (entries z) \<Longrightarrow>
     localIdOf z (fst (entries z ! i)) = Some (baseOffset z + i)"
  using position_nth [of "map fst (entries z)" i] by (simp add: localIdOf_def)

lemma localIdOf_inj: "localIdOf z T = Some l \<Longrightarrow> localIdOf z U = Some l \<Longrightarrow> T = U"
  by (auto simp: localIdOf_def dest: position_inj)

lemma localIdOf_range:
  assumes "distinct (map fst (entries z))"
  shows "{l. \<exists>T. localIdOf z T = Some l} = {baseOffset z ..< baseOffset z + length (entries z)}"
proof (rule set_eqI)
  fix l
  show "l \<in> {l. \<exists>T. localIdOf z T = Some l} \<longleftrightarrow>
      l \<in> {baseOffset z ..< baseOffset z + length (entries z)}"
  proof
    assume "l \<in> {l. \<exists>T. localIdOf z T = Some l}"
    then show "l \<in> {baseOffset z ..< baseOffset z + length (entries z)}"
      by (auto dest: localIdOf_SomeD)
  next
    assume "l \<in> {baseOffset z ..< baseOffset z + length (entries z)}"
    then have "l - baseOffset z < length (entries z)" and "l = baseOffset z + (l - baseOffset z)"
      by auto
    with localIdOf_nth [OF assms, of "l - baseOffset z"] show "l \<in> {l. \<exists>T. localIdOf z T = Some l}"
      by auto
  qed
qed

lemma localIdOf_append:
  "localIdOf z T = Some l \<Longrightarrow> localIdOf (append_entries new z) T = Some l"
  by (auto simp: localIdOf_def append_entries_def dest: position_append)

lemma localIdOf_insert:
  assumes d: "distinct (map fst (entries z))" and ij: "i \<le> j" "j < length (entries z)"
    and fresh: "fst e \<notin> fst ` set (entries z)"
  shows "localIdOf (insert_entry i e z) (fst (entries z ! j)) = Some (baseOffset z + j + 1)"
proof -
  let ?es = "entries z"
  let ?new = "take i ?es @ e # drop i ?es"
  have dn: "distinct (map fst ?new)"
  proof -
    have "distinct (map fst (take i ?es) @ map fst (drop i ?es))"
      using d by (simp add: take_map [symmetric] drop_map [symmetric] del: distinct_append)
    moreover have "fst e \<notin> set (map fst (take i ?es))" "fst e \<notin> set (map fst (drop i ?es))"
      using fresh by (auto dest: in_set_takeD in_set_dropD)
    ultimately show ?thesis
      by auto
  qed
  have len: "Suc j < length ?new"
    using ij by simp
  have nth: "?new ! Suc j = ?es ! j"
    using ij by (simp add: nth_append min_def)
  have "localIdOf (insert_entry i e z) (fst (entries (insert_entry i e z) ! Suc j)) =
      Some (baseOffset (insert_entry i e z) + Suc j)"
    by (rule localIdOf_nth) (use dn len in \<open>simp_all add: insert_entry_def\<close>)
  then show ?thesis
    using nth by (simp add: insert_entry_def)
qed

lemma localIdOf_swap:
  assumes d: "distinct (map fst (entries z))" and ij: "i < j" "j < length (entries z)"
  shows "localIdOf (swap_entries i j z) (fst (entries z ! i)) = Some (baseOffset z + j)"
proof -
  let ?es = "entries z"
  let ?new = "?es[i := ?es ! j, j := ?es ! i]"
  have "map fst ?new = (map fst ?es)[i := map fst ?es ! j, j := map fst ?es ! i]"
    using ij by (simp add: map_update)
  moreover have "distinct ((map fst ?es)[i := map fst ?es ! j, j := map fst ?es ! i])"
    using d ij distinct_swap [of i "map fst ?es" j] by simp
  ultimately have dn: "distinct (map fst ?new)"
    by simp
  have nth: "?new ! j = ?es ! i"
    using ij by simp
  have "localIdOf (swap_entries i j z) (fst (entries (swap_entries i j z) ! j)) =
      Some (baseOffset (swap_entries i j z) + j)"
    by (rule localIdOf_nth) (use dn ij in \<open>simp_all add: swap_entries_def\<close>)
  then show ?thesis
    using nth by (simp add: swap_entries_def)
qed


lemma identityOf_zone_SomeD:
  "identityOf_zone z T = Some ident \<Longrightarrow> fst ident = zoneId z \<and> localIdOf z T = Some (snd ident)"
  by (auto simp: identityOf_zone_def)

lemma identityOf_SomeD:
  "identityOf reg T = Some ident \<Longrightarrow> \<exists>z \<in> set reg. identityOf_zone z T = Some ident"
  by (induction reg) (auto split: option.splits)

lemma identityOf_inj:
  assumes zones: "distinct (map zoneId reg)"
    and T: "identityOf reg T = Some ident" and U: "identityOf reg U = Some ident"
  shows "T = U"
proof -
  from T obtain z where z: "z \<in> set reg" "identityOf_zone z T = Some ident"
    by (auto dest: identityOf_SomeD)
  from U obtain y where y: "y \<in> set reg" "identityOf_zone y U = Some ident"
    by (auto dest: identityOf_SomeD)
  have "zoneId z = zoneId y"
    using z(2) y(2) by (auto dest!: identityOf_zone_SomeD)
  with zones z(1) y(1) have "z = y"
    by (simp add: distinct_map inj_on_def)
  with z(2) y(2) show ?thesis
    by (auto dest!: identityOf_zone_SomeD intro: localIdOf_inj)
qed

lemma CTypeIdZone_distinct: "distinct (map fst (entries (CTypeIdZone zid base)))"
  by (simp add: CTypeIdZone_def CTypeIdZone_entries_def)

subsection \<open>The claims\<close>

text \<open>
  C1. For two requests of one kind, \<^verbatim>\<open>operator==\<close> is true exactly when the stored tuples
  are equal element by element: they have the same length and, at every position, the two
  elements are equal under the elements' own equality.
\<close>

theorem operator_eq_elementwise:
  "operator_eq eq lhs rhs \<longleftrightarrow>
     length (m_storage lhs) = length (m_storage rhs) \<and>
     (\<forall>i < length (m_storage lhs). eq (m_storage lhs ! i) (m_storage rhs ! i))"
  by (simp add: operator_eq_def tuple_eq_list_all2 list_all2_conv_all_nth)

theorem operator_eq_elementwise_witness:
  "operator_eq (=) \<lparr>m_storage = [1, 2, 3 :: int]\<rparr> \<lparr>m_storage = [1, 2, 3]\<rparr> \<and>
   \<not> operator_eq (=) \<lparr>m_storage = [1, 2, 3 :: int]\<rparr> \<lparr>m_storage = [1, 5, 3]\<rparr>"
  using operator_eq_elementwise [of "(=)" "\<lparr>m_storage = [1, 2, 3 :: int]\<rparr>" "\<lparr>m_storage = [1, 2, 3]\<rparr>"]
    operator_eq_elementwise [of "(=)" "\<lparr>m_storage = [1, 2, 3 :: int]\<rparr>" "\<lparr>m_storage = [1, 5, 3]\<rparr>"]
  by (simp add: numeral_3_eq_3 All_less_Suc)

text \<open>
  C2. \<^verbatim>\<open>hash_value\<close> of a request is \<^verbatim>\<open>hash_combine\<close> of the kind's \<^verbatim>\<open>TypeId\<close> value and the
  stored tuple, and of nothing else: requests with the same identity value and the same
  tuple hash alike. It is consistent with equality: two requests of one kind that compare
  equal have the same hash. For elements compared by an equality \<open>eq\<close> of their own, this
  holds when \<^verbatim>\<open>hash_combine\<close> gives one hash to tuples that are equal element by element.
\<close>

theorem hash_value_consistent:
  "hash_value hash_combine tid request = hash_combine (TypeId_value tid) (m_storage request) \<and>
   (TypeId_value tid = TypeId_value tid' \<and> m_storage r1 = m_storage r2 \<longrightarrow>
      hash_value hash_combine tid r1 = hash_value hash_combine tid' r2) \<and>
   (operator_eq (=) r1 r2 \<longrightarrow> hash_value hash_combine tid r1 = hash_value hash_combine tid r2) \<and>
   ((\<forall>xs ys. list_all2 eq xs ys \<longrightarrow>
        hash_combine (TypeId_value tid) xs = hash_combine (TypeId_value tid) ys) \<longrightarrow>
    operator_eq eq r1 r2 \<longrightarrow> hash_value hash_combine tid r1 = hash_value hash_combine tid r2)"
  by (simp add: hash_value_def operator_eq_def tuple_eq_list_all2 list_all2_eq [symmetric])

theorem hash_value_consistent_witness:
  "operator_eq (=) (SimpleRequest_ctor [7, 8 :: int]) example_request \<and>
   hash_value example_hash_combine example_tid
       (SimpleRequest_ctor [7, 8]) =
     hash_value example_hash_combine example_tid
       example_request \<and>
   hash_value example_hash_combine example_tid
       example_request = 3108"
proof -
  have eq: "operator_eq (=) (SimpleRequest_ctor [7, 8 :: int]) example_request"
    by (simp add: operator_eq_def example_request_def SimpleRequest_ctor_def)
  have v: "example_hash_combine 3 [7, 8] = 3108"
    by (simp add: example_hash_combine_def)
  show ?thesis
    using eq v hash_value_consistent [of example_hash_combine
        example_tid example_request
        example_tid
        "SimpleRequest_ctor [7, 8]" example_request "(=)"]
    by (simp add: example_request_def SimpleRequest_ctor_def example_tid_def)
qed

text \<open>
  C3. For a request with at least one input (the requests for which \<^verbatim>\<open>evaluateRequest\<close>
  is instantiated), \<^verbatim>\<open>evaluateRequest\<close> returns exactly what the kind's \<^verbatim>\<open>evaluate\<close>
  returns on the evaluator and the stored inputs, passed in their stored order. A failure
  that \<^verbatim>\<open>evaluate\<close> returns is returned as it is, with the evaluator as \<^verbatim>\<open>evaluate\<close> left it.
\<close>

theorem evaluateRequest_calls_evaluate:
  assumes "m_storage request \<noteq> []"
  shows "get_all (index_sequence_for (m_storage request)) (m_storage request) = m_storage request \<and>
    evaluateRequest d request evaluator = Inr (evaluate d evaluator (m_storage request)) \<and>
    (evaluate d evaluator (m_storage request) = (Inl err, evaluator') \<longrightarrow>
       evaluateRequest d request evaluator = Inr (Inl err, evaluator'))"
  using assms
  by (simp add: evaluateRequest_def callDerived_def get_all_index_sequence_for)
    (simp add: index_sequence_for_def)

theorem evaluateRequest_calls_evaluate_witness:
  "evaluateRequest templated_kind example_request 0 = Inr (Inr 15, 1) \<and>
   evaluateRequest templated_kind (SimpleRequest_ctor [-9, 8]) 4 = Inr (Inl ''negative sum'', 5)"
proof -
  have a: "m_storage example_request \<noteq> []"
    by (simp add: example_request_def SimpleRequest_ctor_def)
  have b: "m_storage (SimpleRequest_ctor [-9, 8 :: int]) \<noteq> []"
    by (simp add: SimpleRequest_ctor_def)
  show ?thesis
    using evaluateRequest_calls_evaluate [OF a, of templated_kind 0]
      evaluateRequest_calls_evaluate [OF b, of templated_kind 4]
    by (simp add: templated_kind_def sum_evaluate_def example_request_def SimpleRequest_ctor_def)
qed

text \<open>
  C4, as the code has it. A call of a cycle hook compiles exactly when the kind declares
  the hook itself or declares the templated members that the base class's hook names. So a
  kind that declares no cycle-diagnostic member is rejected at build time, and a kind that
  provides one complete variant, or both, is accepted.
\<close>

theorem cycle_variants_build:
  "(\<not> build_fails (Derived_diagnoseCycle diagnose d request diags) \<longleftrightarrow>
      own_diagnoseCycle d \<noteq> None \<or>
      (getCycleDiagnosticLoc d \<noteq> None \<and> cycleDiagnostic d \<noteq> None)) \<and>
   (\<not> build_fails (Derived_noteCycleStep diagnose d request diags) \<longleftrightarrow>
      own_noteCycleStep d \<noteq> None \<or>
      (getCycleDiagnosticLoc d \<noteq> None \<and> cycleStepDiagnostic d \<noteq> None)) \<and>
   (has_no_cycle_member d \<longrightarrow>
      build_fails (Derived_diagnoseCycle diagnose d request diags) \<and>
      build_fails (Derived_noteCycleStep diagnose d request diags)) \<and>
   (has_direct d \<or> has_templated d \<longrightarrow>
      \<not> build_fails (Derived_diagnoseCycle diagnose d request diags) \<and>
      \<not> build_fails (Derived_noteCycleStep diagnose d request diags))"
  by (auto simp: build_fails_def Derived_diagnoseCycle_def Derived_noteCycleStep_def
      diagnoseCycle_def noteCycleStep_def diagnoseImpl_def has_no_cycle_member_def
      has_direct_def has_templated_def split: option.splits)

theorem cycle_variants_build_witness:
  "has_no_cycle_member neither_kind \<and>
   build_fails (Derived_diagnoseCycle record_diagnose neither_kind example_request []) \<and>
   build_fails (Derived_noteCycleStep record_diagnose neither_kind example_request []) \<and>
   has_direct direct_kind \<and>
   \<not> build_fails (Derived_diagnoseCycle record_diagnose direct_kind example_request []) \<and>
   \<not> build_fails (Derived_noteCycleStep record_diagnose direct_kind example_request []) \<and>
   has_templated templated_kind \<and>
   \<not> build_fails (Derived_diagnoseCycle record_diagnose templated_kind example_request []) \<and>
   \<not> build_fails (Derived_noteCycleStep record_diagnose templated_kind example_request [])"
proof -
  have n: "has_no_cycle_member neither_kind"
    by (simp add: has_no_cycle_member_def neither_kind_def)
  have d: "has_direct direct_kind"
    by (simp add: has_direct_def direct_kind_def)
  have t: "has_templated templated_kind"
    by (simp add: has_templated_def templated_kind_def)
  show ?thesis
    using n d t
      cycle_variants_build [of record_diagnose neither_kind example_request "[]"]
      cycle_variants_build [of record_diagnose direct_kind example_request "[]"]
      cycle_variants_build [of record_diagnose templated_kind example_request "[]"]
    by blast
qed

text \<open>
  C4 as stated fails: a kind that provides both variants builds. Its own
  \<^verbatim>\<open>diagnoseCycle\<close> and \<^verbatim>\<open>noteCycleStep\<close> are the ones called, and the templated members
  are not used.
\<close>

theorem both_variants_build:
  "has_direct both_kind \<and> has_templated both_kind \<and>
   Derived_diagnoseCycle record_diagnose both_kind example_request [] =
     Inr [(0, ''direct cycle'', [])] \<and>
   Derived_noteCycleStep record_diagnose both_kind example_request [] =
     Inr [(0, ''direct step'', [])] \<and>
   \<not> build_fails (Derived_diagnoseCycle record_diagnose both_kind example_request []) \<and>
   \<not> build_fails (Derived_noteCycleStep record_diagnose both_kind example_request [])"
  by (simp add: has_direct_def has_templated_def both_kind_def Derived_diagnoseCycle_def
      Derived_noteCycleStep_def direct_cycle_def direct_step_def build_fails_def)

text \<open>
  C5. For a kind that uses the templated variant, \<^verbatim>\<open>diagnoseCycle\<close> makes one call of
  \<^verbatim>\<open>diagnose\<close> with the kind's \<^verbatim>\<open>cycleDiagnostic\<close>, and \<^verbatim>\<open>noteCycleStep\<close> one call with the
  kind's \<^verbatim>\<open>cycleStepDiagnostic\<close>; each call is located at \<^verbatim>\<open>getCycleDiagnosticLoc\<close> of
  the stored inputs and receives the stored inputs, in their order, as the arguments.
\<close>

theorem templated_cycle_diagnostics:
  assumes "own_diagnoseCycle d = None" and "own_noteCycleStep d = None"
    and "getCycleDiagnosticLoc d = Some loc"
    and "cycleDiagnostic d = Some head" and "cycleStepDiagnostic d = Some step"
  shows "Derived_diagnoseCycle diagnose d request diags =
      Inr (diagnose (loc (m_storage request)) head (m_storage request) diags) \<and>
    Derived_noteCycleStep diagnose d request diags =
      Inr (diagnose (loc (m_storage request)) step (m_storage request) diags) \<and>
    diagnoseCycle diagnose d request diags = Derived_diagnoseCycle diagnose d request diags \<and>
    noteCycleStep diagnose d request diags = Derived_noteCycleStep diagnose d request diags"
  using assms
  by (simp add: Derived_diagnoseCycle_def Derived_noteCycleStep_def diagnoseCycle_def
      noteCycleStep_def diagnoseImpl_index_sequence_for)

theorem templated_cycle_diagnostics_witness:
  "Derived_diagnoseCycle record_diagnose templated_kind example_request [] =
     Inr [(7, ''circular reference'', [7, 8])] \<and>
   Derived_noteCycleStep record_diagnose templated_kind example_request
       [(7, ''circular reference'', [7, 8])] =
     Inr [(7, ''circular reference'', [7, 8]), (7, ''through reference here'', [7, 8])]"
proof -
  have a: "own_diagnoseCycle templated_kind = None" "own_noteCycleStep templated_kind = None"
    "getCycleDiagnosticLoc templated_kind = Some (\<lambda>xs. nat (hd xs))"
    "cycleDiagnostic templated_kind = Some ''circular reference''"
    "cycleStepDiagnostic templated_kind = Some ''through reference here''"
    by (simp_all add: templated_kind_def)
  show ?thesis
    using templated_cycle_diagnostics [OF a, of record_diagnose example_request "[]"]
      templated_cycle_diagnostics [OF a, of record_diagnose example_request
        "[(7, ''circular reference'', [7, 8])]"]
    by (simp add: record_diagnose_def example_request_def SimpleRequest_ctor_def)
qed

text \<open>
  C6. Two requests of different kinds are never considered equal: \<^verbatim>\<open>operator==\<close> has no
  candidate for operands of two kinds, whatever their tuples hold. Their identities differ:
  in a registry whose zones have pairwise different zone ids, two different kinds get
  different (zone id, local id) pairs, so the identity that enters \<^verbatim>\<open>hash_value\<close> differs.
\<close>

theorem different_kinds_differ:
  assumes "distinct (map zoneId reg)" and "K1 \<noteq> K2"
    and "identityOf reg K1 = Some (TypeId_value tid1)"
    and "identityOf reg K2 = Some (TypeId_value tid2)"
  shows "operator_eq_call eq (K1, r1) (K2, r2) = Inl (NoViableFunction ''operator=='') \<and>
    TypeId_value tid1 \<noteq> TypeId_value tid2 \<and>
    fst (hash_value Pair tid1 r1) \<noteq> fst (hash_value Pair tid2 r2)"
proof -
  have "TypeId_value tid1 \<noteq> TypeId_value tid2"
    using assms identityOf_inj [of reg K1 "TypeId_value tid1" K2] by auto
  then show ?thesis
    using assms(2) by (simp add: operator_eq_call_def hash_value_def)
qed

theorem different_kinds_differ_witness:
  "identityOf example_registry ''SumRequest'' = Some (1, 0) \<and>
   identityOf example_registry ''ProductRequest'' = Some (1, 1) \<and>
   operator_eq_call (=) (''SumRequest'', example_request) (''ProductRequest'', example_request) =
     Inl (NoViableFunction ''operator=='') \<and>
   fst (hash_value Pair \<lparr>TypeId_value = (1 :: nat, 0 :: nat), TypeId_getName = ''SumRequest''\<rparr>
          example_request) \<noteq>
     fst (hash_value Pair \<lparr>TypeId_value = (1 :: nat, 1 :: nat), TypeId_getName = ''ProductRequest''\<rparr>
          example_request)"
proof -
  have z: "distinct (map zoneId example_registry)"
    by (simp add: example_registry_def CTypeIdZone_def)
  have k: "''SumRequest'' \<noteq> ''ProductRequest''"
    by simp
  have s: "identityOf example_registry ''SumRequest'' =
      Some (TypeId_value \<lparr>TypeId_value = (1 :: nat, 0 :: nat), TypeId_getName = ''SumRequest''\<rparr>)"
    by (simp add: example_registry_def CTypeIdZone_def CTypeIdZone_entries_def
        identityOf_zone_def localIdOf_def)
  have p: "identityOf example_registry ''ProductRequest'' =
      Some (TypeId_value \<lparr>TypeId_value = (1 :: nat, 1 :: nat), TypeId_getName = ''ProductRequest''\<rparr>)"
    by (simp add: example_registry_def CTypeIdZone_def CTypeIdZone_entries_def
        identityOf_zone_def localIdOf_def)
  show ?thesis
    using s p different_kinds_differ [OF z k s p, of "(=)" example_request example_request]
    by simp
qed

text \<open>
  C7. \<^verbatim>\<open>simple_display\<close> writes the kind's registry name and then the rendering of the
  stored tuple, for a tuple display that appends its rendering to the stream. A second
  display of the request writes the same text again. The name plays no role in hashing:
  \<^verbatim>\<open>hash_value\<close> is the same under any other name (and \<^verbatim>\<open>operator==\<close> takes no
  \<^verbatim>\<open>TypeId\<close> at all).
\<close>

theorem simple_display_name_then_inputs:
  assumes "\<And>out v. simple_display_tuple out v = out @ render v"
  shows "simple_display simple_display_tuple tid out request =
      out @ TypeId_getName tid @ render (m_storage request) \<and>
    simple_display simple_display_tuple tid
        (simple_display simple_display_tuple tid out request) request =
      out @ (TypeId_getName tid @ render (m_storage request))
          @ (TypeId_getName tid @ render (m_storage request)) \<and>
    hash_value hash_combine (tid\<lparr>TypeId_getName := other_name\<rparr>) request =
      hash_value hash_combine tid request"
  using assms by (simp add: simple_display_def out_shl_def hash_value_def)

theorem simple_display_name_then_inputs_witness:
  "simple_display (display_paren_tuple show_digit)
       example_tid ''note: '' example_request =
     ''note: SumRequest(7, 8)''"
proof -
  have a: "\<And>out v. display_paren_tuple show_digit out v = out @ display_paren show_digit v"
    by (simp add: display_paren_tuple_def out_shl_def)
  show ?thesis
    using simple_display_name_then_inputs [where simple_display_tuple = "display_paren_tuple show_digit"
        and render = "display_paren show_digit"
        and tid = example_tid
        and out = "''note: ''" and request = example_request
        and hash_combine = example_hash_combine and other_name = "''Other''", OF a]
    by (simp add: display_paren_def show_digit_def example_request_def SimpleRequest_ctor_def
        example_tid_def)
qed

text \<open>
  C8. The stored tuple is the one given to the constructor and no public operation changes
  it: after any sequence of comparisons, hashes, displays, evaluations and cycle-diagnostic
  calls the request is the request it was, and its storage holds the constructor's inputs.
\<close>

theorem storage_never_changes:
  "w_request (perform_all sdt tid diagnose d ops w) = w_request w \<and>
   getStorage (w_request (perform_all sdt tid diagnose d ops
       (w\<lparr>w_request := SimpleRequest_ctor inputs\<rparr>))) = inputs"
proof -
  have "w_request (perform_all sdt tid diagnose d ops v) = w_request v" for v
    by (induction ops arbitrary: v) (simp_all add: perform_request)
  then show ?thesis
    by (simp add: getStorage_def SimpleRequest_ctor_def)
qed

theorem storage_never_changes_witness:
  "getStorage (w_request (perform_all (display_paren_tuple show_digit) example_tid
       record_diagnose templated_kind
       [OpEvaluate, OpDiagnoseCycle, OpNoteCycleStep, OpDisplay, OpHash, OpEq example_request]
       (example_world\<lparr>w_request := SimpleRequest_ctor [7, 8]\<rparr>))) = [7, 8]"
  using storage_never_changes [of "display_paren_tuple show_digit" example_tid
      record_diagnose templated_kind
      "[OpEvaluate, OpDiagnoseCycle, OpNoteCycleStep, OpDisplay, OpHash, OpEq example_request]"
      example_world "[7, 8]"]
  by simp

text \<open>
  C9. In a zone whose list declares each type once, the entry at position \<open>i\<close> has the
  local id \<open>baseOffset + i\<close>. The local ids are therefore dense (they are exactly the
  numbers from the base offset up to the base offset plus the length of the list) and
  unique (two types with one local id are one type), and each declared type has exactly one
  identity. Appending entries keeps every existing id. Inserting a new entry at or before
  an entry moves that entry's id up by one, and exchanging two entries gives the first the
  position of the second.
\<close>

theorem local_ids_by_position:
  assumes "distinct (map fst (entries z))"
  shows "(\<forall>i < length (entries z).
        localIdOf z (fst (entries z ! i)) = Some (baseOffset z + i)) \<and>
    {l. \<exists>T. localIdOf z T = Some l} = {baseOffset z ..< baseOffset z + length (entries z)} \<and>
    (\<forall>T U l. localIdOf z T = Some l \<and> localIdOf z U = Some l \<longrightarrow> T = U) \<and>
    (\<forall>T \<in> fst ` set (entries z). \<exists>!ident. identityOf_zone z T = Some ident) \<and>
    (\<forall>T l new. localIdOf z T = Some l \<longrightarrow> localIdOf (append_entries new z) T = Some l) \<and>
    (\<forall>i j e. i \<le> j \<and> j < length (entries z) \<and> fst e \<notin> fst ` set (entries z) \<longrightarrow>
        localIdOf (insert_entry i e z) (fst (entries z ! j)) = Some (baseOffset z + j + 1)) \<and>
    (\<forall>i j. i < j \<and> j < length (entries z) \<longrightarrow>
        localIdOf (swap_entries i j z) (fst (entries z ! i)) = Some (baseOffset z + j))"
proof (intro conjI)
  show "\<forall>i < length (entries z). localIdOf z (fst (entries z ! i)) = Some (baseOffset z + i)"
    using assms by (simp add: localIdOf_nth)
  show "{l. \<exists>T. localIdOf z T = Some l} = {baseOffset z ..< baseOffset z + length (entries z)}"
    using assms by (rule localIdOf_range)
  show "\<forall>T U l. localIdOf z T = Some l \<and> localIdOf z U = Some l \<longrightarrow> T = U"
    by (blast intro: localIdOf_inj)
  show "\<forall>T \<in> fst ` set (entries z). \<exists>!ident. identityOf_zone z T = Some ident"
  proof
    fix T
    assume "T \<in> fst ` set (entries z)"
    then have "position T (map fst (entries z)) \<noteq> None"
      by (simp add: position_None_iff)
    then show "\<exists>!ident. identityOf_zone z T = Some ident"
      by (auto simp: identityOf_zone_def localIdOf_def)
  qed
  show "\<forall>T l new. localIdOf z T = Some l \<longrightarrow> localIdOf (append_entries new z) T = Some l"
    by (simp add: localIdOf_append)
  show "\<forall>i j e. i \<le> j \<and> j < length (entries z) \<and> fst e \<notin> fst ` set (entries z) \<longrightarrow>
      localIdOf (insert_entry i e z) (fst (entries z ! j)) = Some (baseOffset z + j + 1)"
    using assms by (blast intro: localIdOf_insert)
  show "\<forall>i j. i < j \<and> j < length (entries z) \<longrightarrow>
      localIdOf (swap_entries i j z) (fst (entries z ! i)) = Some (baseOffset z + j)"
    using assms by (blast intro: localIdOf_swap)
qed

theorem local_ids_by_position_witness:
  "distinct (map fst (entries (CTypeIdZone 0 0))) \<and>
   localIdOf (CTypeIdZone 0 0) ''int'' = Some 5 \<and>
   localIdOf (append_entries [(''wchar_t'', ''WChar'')] (CTypeIdZone 0 0)) ''int'' = Some 5 \<and>
   localIdOf (insert_entry 0 (''wchar_t'', ''WChar'') (CTypeIdZone 0 0)) ''int'' = Some 6 \<and>
   localIdOf (swap_entries 5 6 (CTypeIdZone 0 0)) ''int'' = Some 6"
proof -
  have d: "distinct (map fst (entries (CTypeIdZone 0 0)))"
    by (rule CTypeIdZone_distinct)
  have len: "length (entries (CTypeIdZone 0 0)) = 19"
    by (simp add: CTypeIdZone_def CTypeIdZone_entries_def)
  have int: "fst (entries (CTypeIdZone 0 0) ! 5) = ''int''"
    by (simp add: CTypeIdZone_def CTypeIdZone_entries_def)
  have fresh: "fst (''wchar_t'', ''WChar'') \<notin> fst ` set (entries (CTypeIdZone 0 0))"
    by (simp add: CTypeIdZone_def CTypeIdZone_entries_def)
  note t = local_ids_by_position [OF d]
  have a: "localIdOf (CTypeIdZone 0 0) ''int'' = Some 5"
  proof -
    from t have "\<forall>i < length (entries (CTypeIdZone 0 0)).
        localIdOf (CTypeIdZone 0 0) (fst (entries (CTypeIdZone 0 0) ! i)) =
          Some (baseOffset (CTypeIdZone 0 0) + i)"
      by (rule conjunct1)
    then have "localIdOf (CTypeIdZone 0 0) (fst (entries (CTypeIdZone 0 0) ! 5)) =
        Some (baseOffset (CTypeIdZone 0 0) + 5)"
      using len by simp
    then show ?thesis
      by (simp add: int) (simp add: CTypeIdZone_def)
  qed
  have b: "localIdOf (append_entries [(''wchar_t'', ''WChar'')] (CTypeIdZone 0 0)) ''int'' = Some 5"
    using t a by blast
  have c: "localIdOf (insert_entry 0 (''wchar_t'', ''WChar'') (CTypeIdZone 0 0)) ''int'' = Some 6"
  proof -
    have "(0::nat) \<le> 5 \<and> 5 < length (entries (CTypeIdZone 0 0)) \<and>
        fst (''wchar_t'', ''WChar'') \<notin> fst ` set (entries (CTypeIdZone 0 0))"
      using len fresh by simp
    with t have "localIdOf (insert_entry 0 (''wchar_t'', ''WChar'') (CTypeIdZone 0 0))
        (fst (entries (CTypeIdZone 0 0) ! 5)) = Some (baseOffset (CTypeIdZone 0 0) + 5 + 1)"
      by blast
    then show ?thesis
      by (simp add: int) (simp add: CTypeIdZone_def)
  qed
  have e: "localIdOf (swap_entries 5 6 (CTypeIdZone 0 0)) ''int'' = Some 6"
  proof -
    have "(5::nat) < 6 \<and> 6 < length (entries (CTypeIdZone 0 0))"
      using len by simp
    with t have "localIdOf (swap_entries 5 6 (CTypeIdZone 0 0))
        (fst (entries (CTypeIdZone 0 0) ! 5)) = Some (baseOffset (CTypeIdZone 0 0) + 6)"
      by blast
    then show ?thesis
      by (simp add: int) (simp add: CTypeIdZone_def)
  qed
  show ?thesis
    using d a b c e by simp
qed

text \<open>
  C10. \<^verbatim>\<open>evaluateRequest\<close> for a request without inputs does not build: the static
  assertion of \<^verbatim>\<open>callDerived\<close> fails. It builds exactly for the requests with at least one
  input.
\<close>

theorem evaluateRequest_needs_input:
  "(m_storage request = [] \<longrightarrow>
      evaluateRequest d request evaluator =
        Inl (StaticAssertFailed ''Subclass must define evaluate()'')) \<and>
   (\<not> build_fails (evaluateRequest d request evaluator) \<longleftrightarrow> m_storage request \<noteq> [])"
  by (simp add: evaluateRequest_def callDerived_def index_sequence_for_def build_fails_def)

theorem evaluateRequest_needs_input_witness:
  "evaluateRequest templated_kind (SimpleRequest_ctor []) 0 =
     Inl (StaticAssertFailed ''Subclass must define evaluate()'') \<and>
   \<not> build_fails (evaluateRequest templated_kind example_request 0)"
  using evaluateRequest_needs_input [of "SimpleRequest_ctor []" templated_kind 0]
    evaluateRequest_needs_input [of example_request templated_kind 0]
  by (simp add: example_request_def SimpleRequest_ctor_def)

end
